theory Spec2Isabelle
  imports Main
begin

section \<open>Text\<close>

text \<open>
  A Python \<open>str\<close> is a sequence of Unicode code points; it is modelled as a list of
  natural numbers, one per code point. \<open>ascii\<close> turns an Isabelle literal into such a list,
  so that \<open>ascii ''id''\<close> is the Python literal \<open>"id"\<close>.
\<close>

type_synonym str = "nat list"

definition ascii :: "string \<Rightarrow> str" where
  "ascii s = map of_char s"

text \<open>
  \<open>str.lower()\<close>. In the blocks Basic Latin, Latin-1 Supplement (U+0000 to U+00FF) and
  Cyrillic (U+0400 to U+045F) the lower-case form of a code point is one code point and
  does not depend on its neighbours; \<open>lower_cp\<close> writes it out. For a code point outside
  these blocks the lower-case form comes from the Unicode tables of the interpreter: it
  is one code point or more (U+0130 gives two) and for the capital sigma it depends on
  the neighbours. These tables are the parameter \<open>uc\<close>: \<open>uc s i\<close> is the lower-case form
  of the code point at position \<open>i\<close> of \<open>s\<close>, as a first code point and the rest.
\<close>

definition covered :: "nat \<Rightarrow> bool" where
  "covered c \<longleftrightarrow> c < 256 \<or> (1024 \<le> c \<and> c < 1120)"

definition lower_cp :: "nat \<Rightarrow> nat" where
  "lower_cp c =
     (if 65 \<le> c \<and> c \<le> 90 then c + 32
      else if (192 \<le> c \<and> c \<le> 214) \<or> (216 \<le> c \<and> c \<le> 222) then c + 32
      else if 1040 \<le> c \<and> c \<le> 1071 then c + 32
      else if 1024 \<le> c \<and> c \<le> 1039 then c + 80
      else c)"

type_synonym casing = "str \<Rightarrow> nat \<Rightarrow> nat \<times> nat list"

fun lower_from :: "casing \<Rightarrow> str \<Rightarrow> nat \<Rightarrow> str \<Rightarrow> str" where
  "lower_from uc s i [] = []"
| "lower_from uc s i (c # cs) =
     (if covered c then [lower_cp c] else fst (uc s i) # snd (uc s i))
       @ lower_from uc s (Suc i) cs"

definition lower :: "casing \<Rightarrow> str \<Rightarrow> str" where
  "lower uc s = lower_from uc s 0 s"

text \<open>A casing that leaves every code point outside the three blocks as it is.\<close>

definition plain_casing :: casing where
  "plain_casing s i = (s ! i, [])"

text \<open>The operator \<open>a in b\<close> on two strings: \<open>a\<close> occurs in \<open>b\<close> as a contiguous run.\<close>

fun starts_with :: "str \<Rightarrow> str \<Rightarrow> bool" where
  "starts_with [] hay = True"
| "starts_with (x # xs) [] = False"
| "starts_with (x # xs) (y # ys) = (x = y \<and> starts_with xs ys)"

fun str_in :: "str \<Rightarrow> str \<Rightarrow> bool" where
  "str_in needle [] = (needle = [])"
| "str_in needle (h # hs) = (starts_with needle (h # hs) \<or> str_in needle hs)"




text \<open>
  \<open>str(n)\<close> for an integer: its decimal digits, with a minus sign when negative.
  Integers are unbounded and their conversion to text is total; the limit that recent
  interpreters can put on the number of digits of such a conversion is not modelled.
\<close>

function digits :: "nat \<Rightarrow> str" where
  "digits n = (if n < 10 then [48 + n] else digits (n div 10) @ [48 + n mod 10])"
  by pat_completeness auto
termination
  by (relation "measure (\<lambda>n. n)") auto

declare digits.simps [simp del]

definition str_int :: "int \<Rightarrow> str" where
  "str_int i = (if i < 0 then 45 # digits (nat (- i)) else digits (nat i))"


text \<open>
  A string can be written to a file opened with \<open>encoding="utf-8"\<close> when none of its
  code points is a surrogate (U+D800 to U+DFFF); otherwise the write raises
  \<open>UnicodeEncodeError\<close>.
\<close>

definition encodable :: "str \<Rightarrow> bool" where
  "encodable s = list_all (\<lambda>c. c < 55296 \<or> (57344 \<le> c \<and> c < 1114112)) s"

section \<open>The record model: class Book\<close>

text \<open>
  The fields follow the annotations of \<open>Book.__init__\<close>: \<open>id\<close> and \<open>year\<close> are integers
  (unbounded, as Python's), the others strings. The attribute \<open>id\<close> is named \<open>book_id\<close>,
  after the constructor's parameter.
\<close>

record book =
  book_id :: int
  title :: str
  author :: str
  year :: int
  status :: str

text \<open>
  The two status labels of the source are Russian: \<open>v nalichii\<close> (available, the default
  of the constructor) and \<open>vydana\<close> (checked out). They are given by their code points.
\<close>

definition default_status :: str where
  "default_status = [1074, 32, 1085, 1072, 1083, 1080, 1095, 1080, 1080]"

definition checked_out :: str where
  "checked_out = [1074, 1099, 1076, 1072, 1085, 1072]"

definition Book :: "int \<Rightarrow> str \<Rightarrow> str \<Rightarrow> int \<Rightarrow> str \<Rightarrow> book" where
  "Book i t a y st = \<lparr>book_id = i, title = t, author = a, year = y, status = st\<rparr>"

text \<open>
  JSON values of a persisted record, and the dictionary \<open>to_dict\<close> builds: an association
  list in the order of insertion, as a Python dict keeps it.
\<close>

datatype jval = JInt int | JStr str

type_synonym jdict = "(str \<times> jval) list"

definition to_dict :: "book \<Rightarrow> jdict" where
  "to_dict b =
     [(ascii ''id'', JInt (book_id b)),
      (ascii ''title'', JStr (title b)),
      (ascii ''author'', JStr (author b)),
      (ascii ''year'', JInt (year b)),
      (ascii ''status'', JStr (status b))]"

definition book_encodable :: "book \<Rightarrow> bool" where
  "book_encodable b \<longleftrightarrow> encodable (title b) \<and> encodable (author b) \<and> encodable (status b)"

section \<open>The catalog store: class Library\<close>

text \<open>
  The state is the list \<open>self.books\<close> together with the file \<open>library.json\<close>, which is
  absent, or holds a JSON array (kept as the parsed value: \<open>json.load\<close> gives back the
  integers and strings that \<open>json.dump\<close> wrote), or holds the beginning of a JSON text
  that a failed write left behind, which does not parse.
\<close>

datatype file_content = Absent | Json "jdict list" | Partial

record state =
  books :: "book list"
  data_file :: file_content

text \<open>
  The exceptions of the model. \<open>UnicodeEncodeError\<close> and \<open>JSONDecodeError\<close> are
  subclasses of \<open>ValueError\<close>. \<open>Untyped k\<close> is no exception of Python: it marks a record
  whose entry \<open>k\<close> has a JSON type that the annotations of \<open>Book\<close> exclude (a string for
  \<open>id\<close>, say), where the typed model of \<open>Book\<close> stops.
\<close>

datatype error =
    FileNotFoundError
  | JSONDecodeError
  | KeyError str
  | UnicodeEncodeError
  | Untyped str


definition getitem :: "jdict \<Rightarrow> str \<Rightarrow> error + jval" where
  "getitem d k = (case map_of d k of None \<Rightarrow> Inl (KeyError k) | Some v \<Rightarrow> Inr v)"

fun as_int :: "str \<Rightarrow> jval \<Rightarrow> error + int" where
  "as_int k (JInt i) = Inr i"
| "as_int k (JStr s) = Inl (Untyped k)"

fun as_str :: "str \<Rightarrow> jval \<Rightarrow> error + str" where
  "as_str k (JStr s) = Inr s"
| "as_str k (JInt i) = Inl (Untyped k)"

definition and_then :: "error + 'a \<Rightarrow> ('a \<Rightarrow> error + 'b) \<Rightarrow> error + 'b" where
  "and_then r f = (case r of Inl e \<Rightarrow> Inl e | Inr x \<Rightarrow> f x)"

text \<open>
  One element of the comprehension in \<open>load_data\<close>:
  \<open>Book(item["id"], item["title"], item["author"], item["year"])\<close>. The four subscripts
  are evaluated from left to right; the fifth argument is absent, so the constructor
  takes its default status.
\<close>

definition load_item :: "jdict \<Rightarrow> error + book" where
  "load_item item =
     and_then (getitem item (ascii ''id'')) (\<lambda>vi.
     and_then (getitem item (ascii ''title'')) (\<lambda>vt.
     and_then (getitem item (ascii ''author'')) (\<lambda>va.
     and_then (getitem item (ascii ''year'')) (\<lambda>vy.
     and_then (as_int (ascii ''id'') vi) (\<lambda>i.
     and_then (as_str (ascii ''title'') vt) (\<lambda>t.
     and_then (as_str (ascii ''author'') va) (\<lambda>a.
     and_then (as_int (ascii ''year'') vy) (\<lambda>y.
       Inr (Book i t a y default_status)))))))))"

fun load_items :: "jdict list \<Rightarrow> error + book list" where
  "load_items [] = Inr []"
| "load_items (item # items) =
     and_then (load_item item) (\<lambda>b.
     and_then (load_items items) (\<lambda>bs. Inr (b # bs)))"

definition load_data :: "state \<Rightarrow> error + state" where
  "load_data s =
     (case data_file s of
        Absent \<Rightarrow> Inl FileNotFoundError
      | Partial \<Rightarrow> Inl JSONDecodeError
      | Json items \<Rightarrow> and_then (load_items items) (\<lambda>bs. Inr (s\<lparr>books := bs\<rparr>)))"

text \<open>
  \<open>save_data\<close> opens the file for writing, which empties it, and \<open>json.dump\<close> writes the
  records piece by piece. When every string of the catalog can be encoded the file
  holds the whole catalog afterwards. Otherwise the write of the first string with a
  surrogate raises \<open>UnicodeEncodeError\<close>, and the file keeps what was written before:
  the beginning of the text, which is no JSON document. The result is the exception
  raised, if any, and the state. Failures of the file system itself are not modelled.
\<close>

definition save_data :: "state \<Rightarrow> error option \<times> state" where
  "save_data s =
     (if list_all book_encodable (books s)
      then (None, s\<lparr>data_file := Json (map to_dict (books s))\<rparr>)
      else (Some UnicodeEncodeError, s\<lparr>data_file := Partial\<rparr>))"

text \<open>
  What the operations print, one constructor per message of the source. Standard output
  is taken to accept every text that the file accepts.
\<close>

datatype message =
    Added str int
  | Removed int
  | Remove_not_found
  | Printed jdict
  | Books_not_found
  | Library_empty
  | Status_updated int str
  | Bad_status
  | Book_not_found
  | Year_invalid

text \<open>
  The outcome of an operation: what it printed, the exception that left it, if any, and
  the state at that moment.
\<close>

record result =
  msgs :: "message list"
  raised :: "error option"
  post :: state

text \<open>\<open>max(xs, default=d)\<close> on integers.\<close>

definition max_default :: "int list \<Rightarrow> int \<Rightarrow> int" where
  "max_default xs d = (case xs of [] \<Rightarrow> d | x # ys \<Rightarrow> fold max ys x)"

text \<open>
  In \<open>add_book\<close> the record is appended before \<open>save_data\<close> is called, and the message
  is printed after it: an exception of \<open>save_data\<close> leaves the record in the list and
  skips the message.
\<close>

definition add_book :: "str \<Rightarrow> str \<Rightarrow> int \<Rightarrow> state \<Rightarrow> result" where
  "add_book t a y s =
     (let i = max_default (map book_id (books s)) 0 + 1;
          new_book = Book i t a y default_status;
          s1 = s\<lparr>books := books s @ [new_book]\<rparr>
      in case save_data s1 of
           (Some e, s2) \<Rightarrow> \<lparr>msgs = [], raised = Some e, post = s2\<rparr>
         | (None, s2) \<Rightarrow> \<lparr>msgs = [Added t i], raised = None, post = s2\<rparr>)"

text \<open>
  \<open>next((book for book in self.books if book.id == book_id), None)\<close> is \<open>find\<close>; a
  \<open>Book\<close> object is always true, so \<open>if book\<close> asks whether one was found.
  \<open>self.books.remove(book)\<close> removes the first occurrence of that object.
\<close>

definition remove_book :: "int \<Rightarrow> state \<Rightarrow> result" where
  "remove_book i s =
     (case find (\<lambda>b. book_id b = i) (books s) of
        Some b \<Rightarrow>
          (let s1 = s\<lparr>books := remove1 b (books s)\<rparr>
           in case save_data s1 of
                (Some e, s2) \<Rightarrow> \<lparr>msgs = [], raised = Some e, post = s2\<rparr>
              | (None, s2) \<Rightarrow> \<lparr>msgs = [Removed i], raised = None, post = s2\<rparr>)
      | None \<Rightarrow> \<lparr>msgs = [Remove_not_found], raised = None, post = s\<rparr>)"

text \<open>
  \<open>getattr(book, field, "")\<close>. The five names set by \<open>__init__\<close> give the fields. Any
  other name is looked up on the class (\<open>to_dict\<close>, \<open>__init__\<close>, \<open>__class__\<close>,
  \<open>__dict__\<close> and so on): which names exist there and what \<open>str\<close> makes of their values
  belongs to the interpreter, so this lookup is the parameter \<open>cls\<close>, which gives the
  text of the attribute, or \<open>None\<close> when the name is no attribute at all.
\<close>

datatype pyval = PInt int | PStr str | PObj str

definition getattr :: "(str \<Rightarrow> book \<Rightarrow> str option) \<Rightarrow> book \<Rightarrow> str \<Rightarrow> pyval option" where
  "getattr cls b field =
     (if field = ascii ''id'' then Some (PInt (book_id b))
      else if field = ascii ''title'' then Some (PStr (title b))
      else if field = ascii ''author'' then Some (PStr (author b))
      else if field = ascii ''year'' then Some (PInt (year b))
      else if field = ascii ''status'' then Some (PStr (status b))
      else map_option PObj (cls field b))"

fun py_str :: "pyval \<Rightarrow> str" where
  "py_str (PInt i) = str_int i"
| "py_str (PStr s) = s"
| "py_str (PObj t) = t"

definition field_text :: "(str \<Rightarrow> book \<Rightarrow> str option) \<Rightarrow> book \<Rightarrow> str \<Rightarrow> str" where
  "field_text cls b field =
     py_str (case getattr cls b field of Some v \<Rightarrow> v | None \<Rightarrow> PStr [])"

definition search_results ::
  "(str \<Rightarrow> book \<Rightarrow> str option) \<Rightarrow> casing \<Rightarrow> str \<Rightarrow> str \<Rightarrow> book list \<Rightarrow> book list" where
  "search_results cls uc query field bs =
     filter (\<lambda>b. str_in (lower uc query) (lower uc (field_text cls b field))) bs"

definition search_books ::
  "(str \<Rightarrow> book \<Rightarrow> str option) \<Rightarrow> casing \<Rightarrow> str \<Rightarrow> str \<Rightarrow> state \<Rightarrow> result" where
  "search_books cls uc query field s =
     (let results = search_results cls uc query field (books s)
      in if results \<noteq> []
         then \<lparr>msgs = map (\<lambda>b. Printed (to_dict b)) results, raised = None, post = s\<rparr>
         else \<lparr>msgs = [Books_not_found], raised = None, post = s\<rparr>)"

definition display_books :: "state \<Rightarrow> result" where
  "display_books s =
     (if books s = [] then \<lparr>msgs = [Library_empty], raised = None, post = s\<rparr>
      else \<lparr>msgs = map (\<lambda>b. Printed (to_dict b)) (books s), raised = None, post = s\<rparr>)"

text \<open>
  \<open>book.status = status\<close> assigns to the object that \<open>next\<close> found, the first record
  of the list with the given id.
\<close>

fun set_status :: "int \<Rightarrow> str \<Rightarrow> book list \<Rightarrow> book list" where
  "set_status i st [] = []"
| "set_status i st (b # bs) =
     (if book_id b = i then b\<lparr>status := st\<rparr> # bs else b # set_status i st bs)"

definition update_status :: "int \<Rightarrow> str \<Rightarrow> state \<Rightarrow> result" where
  "update_status i st s =
     (case find (\<lambda>b. book_id b = i) (books s) of
        Some b \<Rightarrow>
          (if st \<in> set [default_status, checked_out]
           then (let s1 = s\<lparr>books := set_status i st (books s)\<rparr>
                 in case save_data s1 of
                      (Some e, s2) \<Rightarrow> \<lparr>msgs = [], raised = Some e, post = s2\<rparr>
                    | (None, s2) \<Rightarrow>
                        \<lparr>msgs = [Status_updated i st], raised = None, post = s2\<rparr>)
           else \<lparr>msgs = [Bad_status], raised = None, post = s\<rparr>)
      | None \<Rightarrow> \<lparr>msgs = [Book_not_found], raised = None, post = s\<rparr>)"

section \<open>The menu\<close>


text \<open>
  The operations of the store, and a run of them. An exception leaves the state as it
  is when it is raised; the run goes on from that state, as it does for a caller that
  catches the exception. A caller that stops there is left with the state after a
  shorter run.
\<close>

datatype operation =
    Add str str int
  | Remove int
  | Search str str
  | ListAll
  | UpdateStatus int str

fun apply_operation ::
  "(str \<Rightarrow> book \<Rightarrow> str option) \<Rightarrow> casing \<Rightarrow> operation \<Rightarrow> state \<Rightarrow> result" where
  "apply_operation cls uc (Add t a y) s = add_book t a y s"
| "apply_operation cls uc (Remove i) s = remove_book i s"
| "apply_operation cls uc (Search q f) s = search_books cls uc q f s"
| "apply_operation cls uc ListAll s = display_books s"
| "apply_operation cls uc (UpdateStatus i st) s = update_status i st s"

fun run ::
  "(str \<Rightarrow> book \<Rightarrow> str option) \<Rightarrow> casing \<Rightarrow> operation list \<Rightarrow> state \<Rightarrow> state" where
  "run cls uc [] s = s"
| "run cls uc (op # ops) s = run cls uc ops (post (apply_operation cls uc op s))"

section \<open>Auxiliary facts\<close>

lemma ascii_keys [simp]:
  "ascii ''id'' \<noteq> ascii ''title''" "ascii ''id'' \<noteq> ascii ''author''"
  "ascii ''id'' \<noteq> ascii ''year''" "ascii ''id'' \<noteq> ascii ''status''"
  "ascii ''title'' \<noteq> ascii ''author''" "ascii ''title'' \<noteq> ascii ''year''"
  "ascii ''title'' \<noteq> ascii ''status''" "ascii ''author'' \<noteq> ascii ''year''"
  "ascii ''author'' \<noteq> ascii ''status''" "ascii ''year'' \<noteq> ascii ''status''"
  by (simp_all add: ascii_def)

lemma book_id_Book [simp]: "book_id (Book i t a y st) = i"
  by (simp add: Book_def)

lemma load_item_to_dict: "load_item (to_dict b) = Inr (b\<lparr>status := default_status\<rparr>)"
  by (simp add: load_item_def to_dict_def getitem_def and_then_def Book_def ascii_keys[symmetric])

lemma load_items_to_dict:
  "load_items (map to_dict bs) = Inr (map (\<lambda>b. b\<lparr>status := default_status\<rparr>) bs)"
  by (induction bs) (simp_all add: load_item_to_dict and_then_def)

lemma load_item_status: "load_item item = Inr b \<Longrightarrow> status b = default_status"
  by (auto simp: load_item_def and_then_def Book_def split: sum.splits)

lemma load_items_status:
  "load_items items = Inr bs \<Longrightarrow> \<forall>b\<in>set bs. status b = default_status"
proof (induction items arbitrary: bs)
  case Nil
  then show ?case by simp
next
  case (Cons item items)
  then show ?case
    by (auto simp: and_then_def split: sum.splits dest: load_item_status)
qed

lemma load_item_ignores_status: "load_item ((ascii ''status'', v) # item) = load_item item"
  by (simp add: load_item_def getitem_def ascii_keys[symmetric])

lemma load_items_ignores_status:
  "load_items (map (\<lambda>item. (ascii ''status'', v item) # item) items) = load_items items"
  by (induction items) (simp_all add: load_item_ignores_status)

lemma save_data_ok:
  "list_all book_encodable (books s) \<Longrightarrow>
   save_data s = (None, s\<lparr>data_file := Json (map to_dict (books s))\<rparr>)"
  by (simp add: save_data_def)

lemma save_data_fails:
  "\<not> list_all book_encodable (books s) \<Longrightarrow>
   save_data s = (Some UnicodeEncodeError, s\<lparr>data_file := Partial\<rparr>)"
  by (simp add: save_data_def)

lemma books_save_data: "books (snd (save_data s)) = books s"
  by (simp add: save_data_def)

lemma max_default_Nil: "max_default [] d = d"
  by (simp add: max_default_def)

lemma max_default_Max: "xs \<noteq> [] \<Longrightarrow> max_default xs d = Max (set xs)"
proof (cases xs)
  case Nil
  assume "xs \<noteq> []"
  with Nil show ?thesis by simp
next
  case (Cons x ys)
  have "max_default xs d = fold max ys x" by (simp add: max_default_def Cons)
  also have "\<dots> = Max (set (x # ys))" by (rule Max.set_eq_fold [symmetric])
  finally show ?thesis by (simp add: Cons)
qed

lemma max_default_ge: "x \<in> set xs \<Longrightarrow> x \<le> max_default xs d"
proof -
  assume x: "x \<in> set xs"
  then have "xs \<noteq> []" by auto
  then have "max_default xs d = Max (set xs)" by (rule max_default_Max)
  with x show ?thesis by simp
qed



lemma str_in_Nil: "str_in [] h"
  by (cases h) simp_all

lemma lower_Nil: "lower uc [] = []"
  by (simp add: lower_def)

lemma lower_from_nonempty: "cs \<noteq> [] \<Longrightarrow> lower_from uc s i cs \<noteq> []"
  by (cases cs) simp_all

lemma lower_nonempty: "q \<noteq> [] \<Longrightarrow> lower uc q \<noteq> []"
  by (simp add: lower_def lower_from_nonempty)










lemma digits_range: "c \<in> set (digits n) \<Longrightarrow> 48 \<le> c \<and> c \<le> 57"
proof (induction n rule: digits.induct)
  case (1 n)
  show ?case
  proof (cases "n < 10")
    case True
    with "1.prems" show ?thesis by (simp add: digits.simps [of n])
  next
    case False
    with "1.prems" have "c \<in> set (digits (n div 10)) \<or> c = 48 + n mod 10"
      by (auto simp: digits.simps [of n])
    then show ?thesis
    proof
      assume "c \<in> set (digits (n div 10))"
      with False "1.IH" show ?thesis by simp
    next
      assume "c = 48 + n mod 10"
      moreover have "n mod 10 < 10" by simp
      ultimately show ?thesis by linarith
    qed
  qed
qed



lemma digits_covered: "list_all covered (digits n)"
proof -
  have "covered c" if "c \<in> set (digits n)" for c
    using digits_range [OF that] by (simp add: covered_def)
  then show ?thesis by (simp add: list_all_iff)
qed

lemma str_int_covered: "list_all covered (str_int i)"
  by (simp add: str_int_def digits_covered covered_def)


lemma encodable_ascii: "encodable (ascii s)"
proof -
  have "c < 55296" if "c \<in> set (ascii s)" for c
  proof -
    from that obtain ch where "c = of_char ch" by (auto simp: ascii_def)
    moreover have "of_char ch < (256 :: nat)" by simp
    ultimately show ?thesis by linarith
  qed
  then show ?thesis by (simp add: encodable_def list_all_iff)
qed

lemma encodable_labels: "encodable default_status" "encodable checked_out" "encodable []"
  by (simp_all add: encodable_def default_status_def checked_out_def)

lemma book_encodable_Book:
  "book_encodable (Book i t a y st) \<longleftrightarrow> encodable t \<and> encodable a \<and> encodable st"
  by (simp add: book_encodable_def Book_def)

lemma add_book_books:
  "books (post (add_book t a y s)) =
     books s @ [Book (max_default (map book_id (books s)) 0 + 1) t a y default_status]"
  by (simp add: add_book_def save_data_def Let_def)

lemma add_book_raised:
  "raised (add_book t a y s) =
     (if list_all book_encodable
           (books s @ [Book (max_default (map book_id (books s)) 0 + 1) t a y default_status])
      then None else Some UnicodeEncodeError)"
  by (simp add: add_book_def save_data_def Let_def)

lemma add_book_msgs:
  "msgs (add_book t a y s) =
     (if raised (add_book t a y s) = None
      then [Added t (max_default (map book_id (books s)) 0 + 1)] else [])"
  by (simp add: add_book_def save_data_def Let_def)

lemma add_book_file:
  "data_file (post (add_book t a y s)) =
     (if raised (add_book t a y s) = None
      then Json (map to_dict (books (post (add_book t a y s)))) else Partial)"
  by (simp add: add_book_def save_data_def Let_def)

lemma add_book_distinct:
  assumes "distinct (map book_id (books s))"
  shows "distinct (map book_id (books (post (add_book t a y s))))"
proof -
  let ?n = "max_default (map book_id (books s)) 0 + 1"
  have "?n \<notin> set (map book_id (books s))"
  proof
    assume "?n \<in> set (map book_id (books s))"
    then have "?n \<le> max_default (map book_id (books s)) 0" by (rule max_default_ge)
    then show False by simp
  qed
  with assms show ?thesis by (simp add: add_book_books)
qed

lemma map_remove1_find:
  "find (\<lambda>b. f b = i) bs = Some b \<Longrightarrow> map f (remove1 b bs) = remove1 i (map f bs)"
proof (induction bs)
  case Nil
  then show ?case by simp
next
  case (Cons x xs)
  show ?case
  proof (cases "f x = i")
    case True
    with Cons.prems show ?thesis by simp
  next
    case False
    with Cons.prems have fnd: "find (\<lambda>b. f b = i) xs = Some b" by simp
    then have "f b = i" by (auto simp: find_Some_iff)
    with False have "x \<noteq> b" by auto
    with False Cons.IH [OF fnd] show ?thesis by simp
  qed
qed

lemma remove_book_ids:
  "map book_id (books (post (remove_book i s))) = remove1 i (map book_id (books s))"
proof (cases "find (\<lambda>b. book_id b = i) (books s)")
  case None
  then have "i \<notin> set (map book_id (books s))" by (auto simp: find_None_iff)
  then have "remove1 i (map book_id (books s)) = map book_id (books s)"
    by (rule remove1_idem)
  with None show ?thesis by (simp add: remove_book_def)
next
  case (Some b)
  then show ?thesis
    by (simp add: remove_book_def save_data_def Let_def map_remove1_find)
qed

lemma remove_book_distinct:
  "distinct (map book_id (books s)) \<Longrightarrow>
   distinct (map book_id (books (post (remove_book i s))))"
  by (simp add: remove_book_ids distinct_remove1)

lemma map_book_id_set_status: "map book_id (set_status i st bs) = map book_id bs"
  by (induction bs) simp_all

lemma update_status_ids:
  "map book_id (books (post (update_status i st s))) = map book_id (books s)"
  by (simp add: update_status_def save_data_def Let_def map_book_id_set_status
      split: option.splits)

lemma search_books_state: "post (search_books cls uc q f s) = s"
  by (simp add: search_books_def Let_def)

lemma display_books_state: "post (display_books s) = s"
  by (simp add: display_books_def)

lemma apply_operation_distinct:
  "distinct (map book_id (books s)) \<Longrightarrow>
   distinct (map book_id (books (post (apply_operation cls uc op s))))"
  by (cases op)
     (simp_all add: add_book_distinct remove_book_distinct update_status_ids
        search_books_state display_books_state)

lemma max_default_upt: "max_default (map int [1..<Suc n]) 0 = int n"
proof (cases n)
  case 0
  then show ?thesis by (simp add: max_default_Nil)
next
  case (Suc k)
  have ne: "map int [1..<Suc n] \<noteq> []" using Suc by simp
  have "Max (set (map int [1..<Suc n])) = int n"
  proof (rule Max_eqI)
    show "finite (set (map int [1..<Suc n]))" by simp
    show "\<And>y. y \<in> set (map int [1..<Suc n]) \<Longrightarrow> y \<le> int n" by auto
    show "int n \<in> set (map int [1..<Suc n])" using Suc by auto
  qed
  with max_default_Max [OF ne] show ?thesis by simp
qed

lemma add_book_ids_upt:
  assumes "map book_id (books s) = map int [1..<Suc n]"
  shows "map book_id (books (post (add_book t a y s))) = map int [1..<Suc (Suc n)]"
proof -
  have "max_default (map book_id (books s)) 0 = int n"
    using assms by (simp only: max_default_upt)
  then show ?thesis using assms by (simp add: add_book_books)
qed

lemma run_adds_ids:
  "map book_id (books s) = map int [1..<Suc n] \<Longrightarrow>
   map book_id (books (run cls uc (map (\<lambda>(t, a, y). Add t a y) args) s)) =
     map int [1..<Suc (n + length args)]"
proof (induction args arbitrary: s n)
  case Nil
  then show ?case by simp
next
  case (Cons x args)
  obtain t a y where x: "x = (t, a, y)" by (cases x) auto
  from Cons.prems
  have "map book_id (books (post (add_book t a y s))) = map int [1..<Suc (Suc n)]"
    by (rule add_book_ids_upt)
  then have "map book_id (books (run cls uc (map (\<lambda>(t, a, y). Add t a y) args)
                 (post (add_book t a y s)))) = map int [1..<Suc (Suc n + length args)]"
    by (rule Cons.IH)
  then show ?case by (simp add: x)
qed

lemma remove1_last_upt: "0 < n \<Longrightarrow> remove1 (int n) (map int [1..<Suc n]) = map int [1..<n]"
proof -
  assume "0 < n"
  then have "[1..<Suc n] = [1..<n] @ [n]" by simp
  then have "map int [1..<Suc n] = map int [1..<n] @ [int n]" by simp
  moreover have "int n \<notin> set (map int [1..<n])" by auto
  ultimately show ?thesis by (simp add: remove1_append)
qed

lemma load_data_save_data:
  "list_all book_encodable (books s) \<Longrightarrow>
   load_data (snd (save_data s)) =
     Inr (s\<lparr>books := map (\<lambda>b. b\<lparr>status := default_status\<rparr>) (books s),
           data_file := Json (map to_dict (books s))\<rparr>)"
  by (simp add: load_data_def save_data_def load_items_to_dict and_then_def)

lemma load_data_save_data_fails:
  "\<not> list_all book_encodable (books s) \<Longrightarrow>
   load_data (snd (save_data s)) = Inl JSONDecodeError"
  by (simp add: load_data_def save_data_def)

lemma field_text_missing: "getattr cls b f = None \<Longrightarrow> field_text cls b f = []"
  by (simp add: field_text_def)

section \<open>Persistence\<close>

text \<open>
  Claim C1. Saving and loading again should give back the collection as it was, status
  included. \<open>save_data\<close> writes the status of every record, and \<open>load_data\<close> does
  not read it: a catalog holding one record with the status \<open>vydana\<close> (checked out)
  is saved without error and comes back with the default status, so the loaded
  collection differs from the saved one.
\<close>

theorem save_load_loses_status:
  "save_data
      \<lparr>books = [Book 1 (ascii ''Dune'') (ascii ''Frank Herbert'') 1965 checked_out],
       data_file = Absent\<rparr> =
     (None,
      \<lparr>books = [Book 1 (ascii ''Dune'') (ascii ''Frank Herbert'') 1965 checked_out],
       data_file = Json
         [to_dict (Book 1 (ascii ''Dune'') (ascii ''Frank Herbert'') 1965 checked_out)]\<rparr>) \<and>
   load_data
      \<lparr>books = [Book 1 (ascii ''Dune'') (ascii ''Frank Herbert'') 1965 checked_out],
       data_file = Json
         [to_dict (Book 1 (ascii ''Dune'') (ascii ''Frank Herbert'') 1965 checked_out)]\<rparr> =
     Inr \<lparr>books = [Book 1 (ascii ''Dune'') (ascii ''Frank Herbert'') 1965 default_status],
          data_file = Json
         [to_dict (Book 1 (ascii ''Dune'') (ascii ''Frank Herbert'') 1965 checked_out)]\<rparr> \<and>
   [Book 1 (ascii ''Dune'') (ascii ''Frank Herbert'') 1965 default_status] \<noteq>
     [Book 1 (ascii ''Dune'') (ascii ''Frank Herbert'') 1965 checked_out]"
proof -
  let ?b = "Book 1 (ascii ''Dune'') (ascii ''Frank Herbert'') 1965 checked_out"
  have enc: "list_all book_encodable [?b]"
    by (simp add: book_encodable_Book encodable_ascii encodable_labels)
  have sv: "save_data \<lparr>books = [?b], data_file = Absent\<rparr> =
      (None, \<lparr>books = [?b], data_file = Json [to_dict ?b]\<rparr>)"
    using enc by (simp add: save_data_def)
  have ld: "load_data \<lparr>books = [?b], data_file = Json [to_dict ?b]\<rparr> =
      Inr \<lparr>books = [Book 1 (ascii ''Dune'') (ascii ''Frank Herbert'') 1965 default_status],
           data_file = Json [to_dict ?b]\<rparr>"
    by (simp add: load_data_def load_item_to_dict and_then_def Book_def)
  have ne: "[Book 1 (ascii ''Dune'') (ascii ''Frank Herbert'') 1965 default_status] \<noteq> [?b]"
    by (simp add: Book_def default_status_def checked_out_def)
  from sv ld ne show ?thesis by blast
qed

text \<open>
  Claim C2. \<open>load_data\<close> builds every record from \<open>id\<close>, \<open>title\<close>, \<open>author\<close> and
  \<open>year\<close> alone. Whenever it returns, every record of the catalog has the default
  status; the records it builds are the same whatever value the file holds under
  \<open>status\<close>. On a file that \<open>save_data\<close> wrote in full it does return, with the records
  of the saved catalog reset to the default status; after a write that failed, it raises
  the error of the JSON parser.
\<close>

theorem load_data_status_default:
  "(load_data s = Inr s' \<longrightarrow> (\<forall>b\<in>set (books s'). status b = default_status)) \<and>
   load_items (map (\<lambda>item. (ascii ''status'', v item) # item) items) = load_items items \<and>
   (list_all book_encodable (books s) \<longrightarrow>
      (\<exists>s''. load_data (snd (save_data s)) = Inr s'' \<and>
         books s'' = map (\<lambda>b. b\<lparr>status := default_status\<rparr>) (books s))) \<and>
   (\<not> list_all book_encodable (books s) \<longrightarrow>
      load_data (snd (save_data s)) = Inl JSONDecodeError)"
proof -
  have a: "load_data s = Inr s' \<longrightarrow> (\<forall>b\<in>set (books s'). status b = default_status)"
  proof
    assume l: "load_data s = Inr s'"
    then obtain its where f: "data_file s = Json its"
      by (cases "data_file s") (simp_all add: load_data_def)
    with l obtain bs where bs: "load_items its = Inr bs" and s': "s' = s\<lparr>books := bs\<rparr>"
      by (cases "load_items its") (auto simp: load_data_def and_then_def)
    from bs have "\<forall>b\<in>set bs. status b = default_status" by (rule load_items_status)
    with s' show "\<forall>b\<in>set (books s'). status b = default_status" by simp
  qed
  have b: "load_items (map (\<lambda>item. (ascii ''status'', v item) # item) items) =
      load_items items"
    by (rule load_items_ignores_status)
  have c: "list_all book_encodable (books s) \<longrightarrow>
      (\<exists>s''. load_data (snd (save_data s)) = Inr s'' \<and>
         books s'' = map (\<lambda>b. b\<lparr>status := default_status\<rparr>) (books s))"
    by (simp add: load_data_save_data)
  have d: "\<not> list_all book_encodable (books s) \<longrightarrow>
      load_data (snd (save_data s)) = Inl JSONDecodeError"
    by (simp add: load_data_save_data_fails)
  from a b c d show ?thesis by blast
qed

theorem load_data_status_default_witness:
  "load_data \<lparr>books = [], data_file = Json
      [[(ascii ''id'', JInt 7), (ascii ''title'', JStr (ascii ''Emma'')),
        (ascii ''author'', JStr (ascii ''Jane Austen'')), (ascii ''year'', JInt 1815),
        (ascii ''status'', JStr checked_out)]]\<rparr> =
     Inr \<lparr>books = [Book 7 (ascii ''Emma'') (ascii ''Jane Austen'') 1815 default_status],
          data_file = Json
      [[(ascii ''id'', JInt 7), (ascii ''title'', JStr (ascii ''Emma'')),
        (ascii ''author'', JStr (ascii ''Jane Austen'')), (ascii ''year'', JInt 1815),
        (ascii ''status'', JStr checked_out)]]\<rparr> \<and>
   map status (books \<lparr>books = [Book 7 (ascii ''Emma'') (ascii ''Jane Austen'') 1815 default_status],
          data_file = Json
      [[(ascii ''id'', JInt 7), (ascii ''title'', JStr (ascii ''Emma'')),
        (ascii ''author'', JStr (ascii ''Jane Austen'')), (ascii ''year'', JInt 1815),
        (ascii ''status'', JStr checked_out)]]\<rparr>) = [default_status] \<and>
   list_all book_encodable
     (books \<lparr>books = [Book 7 (ascii ''Emma'') (ascii ''Jane Austen'') 1815 checked_out],
             data_file = Absent\<rparr>) \<and>
   map status (books (projr (load_data (snd (save_data
      \<lparr>books = [Book 7 (ascii ''Emma'') (ascii ''Jane Austen'') 1815 checked_out],
       data_file = Absent\<rparr>))))) = [default_status] \<and>
   load_data (snd (save_data
      \<lparr>books = [Book 8 [55296] (ascii ''Jane Austen'') 1815 default_status],
       data_file = Json []\<rparr>)) = Inl JSONDecodeError"
proof -
  let ?f = "Json
      [[(ascii ''id'', JInt 7), (ascii ''title'', JStr (ascii ''Emma'')),
        (ascii ''author'', JStr (ascii ''Jane Austen'')), (ascii ''year'', JInt 1815),
        (ascii ''status'', JStr checked_out)]]"
  let ?s = "\<lparr>books = [], data_file = ?f\<rparr>"
  let ?s' = "\<lparr>books = [Book 7 (ascii ''Emma'') (ascii ''Jane Austen'') 1815 default_status],
          data_file = ?f\<rparr>"
  let ?t = "\<lparr>books = [Book 7 (ascii ''Emma'') (ascii ''Jane Austen'') 1815 checked_out],
       data_file = Absent\<rparr>"
  let ?u = "\<lparr>books = [Book 8 [55296] (ascii ''Jane Austen'') 1815 default_status],
       data_file = Json []\<rparr>"
  have l: "load_data ?s = Inr ?s'"
    by (simp add: load_data_def load_item_def getitem_def and_then_def ascii_keys [symmetric])
  from load_data_status_default [of ?s ?s'] l
  have "\<forall>b\<in>set (books ?s'). status b = default_status" by blast
  then have m: "map status (books ?s') = [default_status]" by simp
  have enc: "list_all book_encodable (books ?t)"
    by (simp add: book_encodable_Book encodable_ascii encodable_labels)
  with load_data_status_default [of ?t]
  obtain s'' where s'': "load_data (snd (save_data ?t)) = Inr s''"
    and bs: "books s'' = map (\<lambda>b. b\<lparr>status := default_status\<rparr>) (books ?t)"
    by blast
  from s'' bs have n: "map status (books (projr (load_data (snd (save_data ?t))))) =
      [default_status]"
    by simp
  have "\<not> list_all book_encodable (books ?u)"
    by (simp add: book_encodable_Book encodable_def)
  with load_data_status_default [of ?u]
  have o: "load_data (snd (save_data ?u)) = Inl JSONDecodeError" by blast
  from l m enc n o show ?thesis by blast
qed

section \<open>Uniqueness of the ids\<close>

text \<open>
  Claim C4. Uniqueness of the ids is an invariant: from a catalog in which no two records
  have the same id (the empty one among them), every sequence of Add, Remove, Search,
  ListAll and UpdateStatus operations leads to a catalog in which no two records have the
  same id.
\<close>

theorem run_ids_unique:
  "distinct (map book_id (books s)) \<Longrightarrow>
   distinct (map book_id (books (run cls uc ops s)))"
proof (induction ops arbitrary: s)
  case Nil
  then show ?case by simp
next
  case (Cons op ops)
  from Cons.prems
  have "distinct (map book_id (books (post (apply_operation cls uc op s))))"
    by (rule apply_operation_distinct)
  then show ?case using Cons.IH by simp
qed

theorem run_ids_unique_witness:
  "distinct (map book_id (books \<lparr>books = [], data_file = Absent\<rparr>)) \<and>
   distinct (map book_id (books (run (\<lambda>f b. None) plain_casing
     [Add (ascii ''Dune'') (ascii ''Frank Herbert'') 1965, ListAll,
      Add (ascii ''Emma'') (ascii ''Jane Austen'') 1815, UpdateStatus 1 checked_out,
      Search (ascii ''AUSTEN'') (ascii ''author''), Remove 1,
      Add [56320] (ascii ''James Joyce'') 1922]
     \<lparr>books = [], data_file = Absent\<rparr>)))"
  using run_ids_unique [of "\<lparr>books = [], data_file = Absent\<rparr>" "\<lambda>f b. None" plain_casing
     "[Add (ascii ''Dune'') (ascii ''Frank Herbert'') 1965, ListAll,
      Add (ascii ''Emma'') (ascii ''Jane Austen'') 1815, UpdateStatus 1 checked_out,
      Search (ascii ''AUSTEN'') (ascii ''author''), Remove 1,
      Add [56320] (ascii ''James Joyce'') 1922]"]
  by simp

section \<open>Remove and UpdateStatus\<close>

text \<open>
  Claim C6. When no record has the id \<open>i\<close>, \<open>remove_book i\<close> prints that no book has
  this id, raises nothing and returns the state as it was: the collection and the file
  are unchanged, and nothing is saved.
\<close>

theorem remove_book_not_found:
  "i \<notin> book_id ` set (books s) \<Longrightarrow>
   remove_book i s = \<lparr>msgs = [Remove_not_found], raised = None, post = s\<rparr>"
proof -
  assume "i \<notin> book_id ` set (books s)"
  then have "find (\<lambda>b. book_id b = i) (books s) = None"
    by (auto simp: find_None_iff)
  then show ?thesis by (simp add: remove_book_def)
qed

theorem remove_book_not_found_witness:
  "999 \<notin> book_id ` set (books
      \<lparr>books = [Book 1 (ascii ''Dune'') (ascii ''Frank Herbert'') 1965 default_status],
       data_file = Json [to_dict (Book 1 (ascii ''Dune'') (ascii ''Frank Herbert'') 1965 default_status)]\<rparr>) \<and>
   remove_book 999
      \<lparr>books = [Book 1 (ascii ''Dune'') (ascii ''Frank Herbert'') 1965 default_status],
       data_file = Json [to_dict (Book 1 (ascii ''Dune'') (ascii ''Frank Herbert'') 1965 default_status)]\<rparr> =
   \<lparr>msgs = [Remove_not_found], raised = None, post =
      \<lparr>books = [Book 1 (ascii ''Dune'') (ascii ''Frank Herbert'') 1965 default_status],
       data_file = Json [to_dict (Book 1 (ascii ''Dune'') (ascii ''Frank Herbert'') 1965 default_status)]\<rparr>\<rparr>"
  using remove_book_not_found [of 999
      "\<lparr>books = [Book 1 (ascii ''Dune'') (ascii ''Frank Herbert'') 1965 default_status],
       data_file = Json [to_dict (Book 1 (ascii ''Dune'') (ascii ''Frank Herbert'') 1965 default_status)]\<rparr>"]
  by simp

text \<open>
  Claim C5, as stated: for every catalog and every id, an update with a status outside the
  two labels reports the invalid status. It does not when no record has the id: the id is
  looked up first, and the report is then that the book was not found.
\<close>

theorem update_status_unknown_id_counterexample:
  "ascii ''borrowed-invalid-value'' \<notin> set [default_status, checked_out] \<and>
   update_status 1 (ascii ''borrowed-invalid-value'') \<lparr>books = [], data_file = Json []\<rparr> =
     \<lparr>msgs = [Book_not_found], raised = None,
      post = \<lparr>books = [], data_file = Json []\<rparr>\<rparr> \<and>
   [Book_not_found] \<noteq> [Bad_status]"
  by (simp add: update_status_def ascii_def default_status_def checked_out_def)

text \<open>
  Claim C5, amended. An update with a status outside the two labels changes nothing,
  neither the collection nor the file, and raises nothing; it reports the invalid status
  when some record has the id, and that the book was not found otherwise.
\<close>

theorem update_status_invalid:
  "st \<notin> set [default_status, checked_out] \<Longrightarrow>
   update_status i st s =
     \<lparr>msgs = (if i \<in> book_id ` set (books s) then [Bad_status] else [Book_not_found]),
      raised = None, post = s\<rparr>"
proof -
  assume st: "st \<notin> set [default_status, checked_out]"
  show ?thesis
  proof (cases "find (\<lambda>b. book_id b = i) (books s)")
    case None
    then have "i \<notin> book_id ` set (books s)" by (auto simp: find_None_iff)
    with None show ?thesis by (simp add: update_status_def)
  next
    case (Some b)
    then have "i \<in> book_id ` set (books s)" by (auto simp: find_Some_iff)
    with Some st show ?thesis by (simp add: update_status_def)
  qed
qed

theorem update_status_invalid_witness:
  "ascii ''lost'' \<notin> set [default_status, checked_out] \<and>
   update_status 1 (ascii ''lost'')
      \<lparr>books = [Book 1 (ascii ''Dune'') (ascii ''Frank Herbert'') 1965 checked_out],
       data_file = Json []\<rparr> =
   \<lparr>msgs = [Bad_status], raised = None, post =
      \<lparr>books = [Book 1 (ascii ''Dune'') (ascii ''Frank Herbert'') 1965 checked_out],
       data_file = Json []\<rparr>\<rparr>"
proof -
  have h: "ascii ''lost'' \<notin> set [default_status, checked_out]"
    by (simp add: ascii_def default_status_def checked_out_def)
  from update_status_invalid [OF h, of 1
      "\<lparr>books = [Book 1 (ascii ''Dune'') (ascii ''Frank Herbert'') 1965 checked_out],
       data_file = Json []\<rparr>"] h
  show ?thesis by simp
qed

section \<open>Add\<close>

text \<open>
  Claim C3. \<open>add_book\<close> gives the new record the greatest id of the catalog plus one,
  and the id 1 in an empty catalog, and appends it with the default status; when the
  save that follows raises nothing, it reports that id. So \<open>N\<close> Adds from the empty
  catalog assign the ids 1 to \<open>N\<close> in order, and when the record with the greatest id
  \<open>N\<close> is then removed, the next Add is given \<open>N\<close> again. After any Remove, the next Add
  takes the greatest of the remaining ids plus one.
\<close>

theorem add_book_assigns_max_plus_one:
  "books (post (add_book t a y s)) =
     books s @ [Book ((if books s = [] then 0 else Max (book_id ` set (books s))) + 1)
                  t a y default_status] \<and>
   msgs (add_book t a y s) =
     (if raised (add_book t a y s) = None
      then [Added t ((if books s = [] then 0 else Max (book_id ` set (books s))) + 1)]
      else []) \<and>
   (books s0 = [] \<longrightarrow>
      map book_id (books (run cls uc (map (\<lambda>(t, a, y). Add t a y) args) s0)) =
        map int [1..<Suc (length args)]) \<and>
   (books s0 = [] \<and> args \<noteq> [] \<longrightarrow>
      map book_id (books (post (remove_book (int (length args))
          (run cls uc (map (\<lambda>(t, a, y). Add t a y) args) s0)))) = map int [1..<length args] \<and>
      map book_id (books (post (add_book t a y (post (remove_book (int (length args))
          (run cls uc (map (\<lambda>(t, a, y). Add t a y) args) s0)))))) =
        map int [1..<length args] @ [int (length args)] \<and>
      msgs (add_book t a y (post (remove_book (int (length args))
          (run cls uc (map (\<lambda>(t, a, y). Add t a y) args) s0)))) =
        (if raised (add_book t a y (post (remove_book (int (length args))
               (run cls uc (map (\<lambda>(t, a, y). Add t a y) args) s0)))) = None
         then [Added t (int (length args))] else [])) \<and>
   map book_id (books (post (add_book t a y (post (remove_book i s))))) =
     remove1 i (map book_id (books s)) @
       [max_default (remove1 i (map book_id (books s))) 0 + 1]"
proof -
  let ?next = "(if books s = [] then 0 else Max (book_id ` set (books s))) + 1"
  have nxt: "max_default (map book_id (books s)) 0 + 1 = ?next"
  proof (cases "books s = []")
    case True
    then show ?thesis by (simp add: max_default_Nil)
  next
    case False
    then have "map book_id (books s) \<noteq> []" by simp
    then have "max_default (map book_id (books s)) 0 = Max (set (map book_id (books s)))"
      by (rule max_default_Max)
    with False show ?thesis by simp
  qed
  have p1: "books (post (add_book t a y s)) = books s @ [Book ?next t a y default_status]"
    using nxt by (simp only: add_book_books)
  have p2: "msgs (add_book t a y s) =
      (if raised (add_book t a y s) = None then [Added t ?next] else [])"
    using nxt by (simp only: add_book_msgs)
  let ?s1 = "run cls uc (map (\<lambda>(t, a, y). Add t a y) args) s0"
  let ?n = "length args"
  let ?s2 = "post (remove_book (int ?n) ?s1)"
  have ids: "map book_id (books ?s1) = map int [1..<Suc ?n]" if "books s0 = []"
  proof -
    from that have "map book_id (books s0) = map int [1..<Suc 0]" by simp
    then have "map book_id (books ?s1) = map int [1..<Suc (0 + ?n)]" by (rule run_adds_ids)
    then show ?thesis by simp
  qed
  have p4: "map book_id (books ?s2) = map int [1..<?n] \<and>
      map book_id (books (post (add_book t a y ?s2))) = map int [1..<?n] @ [int ?n] \<and>
      msgs (add_book t a y ?s2) =
        (if raised (add_book t a y ?s2) = None then [Added t (int ?n)] else [])"
    if e: "books s0 = []" and ne: "args \<noteq> []"
  proof -
    from ne have pos: "0 < ?n" by simp
    have r: "map book_id (books ?s2) = map int [1..<?n]"
      using ids [OF e] remove1_last_upt [OF pos] by (simp only: remove_book_ids)
    from pos obtain k where k: "?n = Suc k" by (cases ?n) auto
    from r k have "map book_id (books ?s2) = map int [1..<Suc k]" by simp
    then have "max_default (map book_id (books ?s2)) 0 = int k"
      by (simp only: max_default_upt)
    with k have m: "max_default (map book_id (books ?s2)) 0 + 1 = int ?n" by simp
    have b: "map book_id (books (post (add_book t a y ?s2))) = map int [1..<?n] @ [int ?n]"
      using r m by (simp add: add_book_books)
    have c: "msgs (add_book t a y ?s2) =
        (if raised (add_book t a y ?s2) = None then [Added t (int ?n)] else [])"
      using m by (simp only: add_book_msgs)
    from r b c show ?thesis by blast
  qed
  have p5: "map book_id (books (post (add_book t a y (post (remove_book i s))))) =
     remove1 i (map book_id (books s)) @
       [max_default (remove1 i (map book_id (books s))) 0 + 1]"
    by (simp add: add_book_books remove_book_ids)
  from p1 p2 ids p4 p5 show ?thesis by blast
qed

theorem add_book_assigns_max_plus_one_witness:
  "books \<lparr>books = [], data_file = Absent\<rparr> = [] \<and>
   [(ascii ''Dune'', ascii ''Frank Herbert'', 1965::int),
    (ascii ''Emma'', ascii ''Jane Austen'', 1815),
    (ascii ''Ulysses'', ascii ''James Joyce'', 1922)] \<noteq> [] \<and>
   map book_id (books (run (\<lambda>f b. None) plain_casing
     [Add (ascii ''Dune'') (ascii ''Frank Herbert'') 1965,
      Add (ascii ''Emma'') (ascii ''Jane Austen'') 1815,
      Add (ascii ''Ulysses'') (ascii ''James Joyce'') 1922]
     \<lparr>books = [], data_file = Absent\<rparr>)) = [1, 2, 3] \<and>
   map book_id (books (post (add_book (ascii ''Kim'') (ascii ''Rudyard Kipling'') 1901
     (post (remove_book 3
       (run (\<lambda>f b. None) plain_casing
         [Add (ascii ''Dune'') (ascii ''Frank Herbert'') 1965,
          Add (ascii ''Emma'') (ascii ''Jane Austen'') 1815,
          Add (ascii ''Ulysses'') (ascii ''James Joyce'') 1922]
         \<lparr>books = [], data_file = Absent\<rparr>)))))) = [1, 2, 3]"
  using add_book_assigns_max_plus_one [of "ascii ''Kim''" "ascii ''Rudyard Kipling''" 1901
      "\<lparr>books = [], data_file = Absent\<rparr>" "\<lparr>books = [], data_file = Absent\<rparr>"
      "\<lambda>f b. None" plain_casing
      "[(ascii ''Dune'', ascii ''Frank Herbert'', 1965),
        (ascii ''Emma'', ascii ''Jane Austen'', 1815),
        (ascii ''Ulysses'', ascii ''James Joyce'', 1922)]" 3]
  by (simp add: upt_rec)




section \<open>Search\<close>



text \<open>
  Claim C9, as stated: for every query, a search on a name that is no attribute of the
  records finds nothing. With the empty query it finds every record: the missing
  attribute reads as the empty string, in which the empty query occurs.
\<close>

theorem search_unknown_field_counterexample:
  "getattr (\<lambda>f b. None) (Book 1 (ascii ''Dune'') (ascii ''Frank Herbert'') 1965 default_status)
     (ascii ''genre'') = None \<and>
   search_results (\<lambda>f b. None) plain_casing [] (ascii ''genre'')
     [Book 1 (ascii ''Dune'') (ascii ''Frank Herbert'') 1965 default_status] =
     [Book 1 (ascii ''Dune'') (ascii ''Frank Herbert'') 1965 default_status] \<and>
   search_results (\<lambda>f b. None) plain_casing [] (ascii ''genre'')
     [Book 1 (ascii ''Dune'') (ascii ''Frank Herbert'') 1965 default_status] \<noteq> []"
  by (simp add: search_results_def field_text_def getattr_def ascii_def lower_def)

text \<open>
  Claim C9, amended. For every query that is not empty and every field name that is no
  attribute of any record of the catalog, the search finds nothing: it prints that no
  books were found, raises no error and leaves the state as it was.
\<close>

theorem search_unknown_field_empty:
  "q \<noteq> [] \<Longrightarrow> \<forall>b\<in>set (books s). getattr cls b f = None \<Longrightarrow>
   search_results cls uc q f (books s) = [] \<and>
   search_books cls uc q f s = \<lparr>msgs = [Books_not_found], raised = None, post = s\<rparr>"
proof -
  assume q: "q \<noteq> []" and miss: "\<forall>b\<in>set (books s). getattr cls b f = None"
  from q have lq: "lower uc q \<noteq> []" by (rule lower_nonempty)
  have "\<not> str_in (lower uc q) (lower uc (field_text cls b f))" if "b \<in> set (books s)" for b
  proof -
    from that miss have "field_text cls b f = []" by (simp add: field_text_missing)
    with lq show ?thesis by (simp add: lower_Nil)
  qed
  then have "search_results cls uc q f (books s) = []"
    by (simp add: search_results_def filter_empty_conv)
  then show ?thesis by (simp add: search_books_def)
qed

theorem search_unknown_field_empty_witness:
  "ascii ''dune'' \<noteq> [] \<and>
   getattr (\<lambda>f b. None) (Book 1 (ascii ''Dune'') (ascii ''Frank Herbert'') 1965 default_status)
     (ascii ''genre'') = None \<and>
   search_books (\<lambda>f b. None) plain_casing (ascii ''dune'') (ascii ''genre'')
     \<lparr>books = [Book 1 (ascii ''Dune'') (ascii ''Frank Herbert'') 1965 default_status],
      data_file = Absent\<rparr> =
   \<lparr>msgs = [Books_not_found], raised = None, post =
     \<lparr>books = [Book 1 (ascii ''Dune'') (ascii ''Frank Herbert'') 1965 default_status],
      data_file = Absent\<rparr>\<rparr>"
proof -
  let ?b = "Book 1 (ascii ''Dune'') (ascii ''Frank Herbert'') 1965 default_status"
  let ?s = "\<lparr>books = [?b], data_file = Absent\<rparr>"
  have q: "ascii ''dune'' \<noteq> []" by (simp add: ascii_def)
  have g: "getattr (\<lambda>f b. None) ?b (ascii ''genre'') = None"
    by (simp add: getattr_def ascii_def)
  then have m: "\<forall>b\<in>set (books ?s). getattr (\<lambda>f b. None) b (ascii ''genre'') = None" by simp
  from search_unknown_field_empty [OF q m] q g show ?thesis by blast
qed

text \<open>
  Claim C10. With the empty string as query, the search returns every record of the
  catalog, in order, for every field name, attribute of the records or not; it prints
  them all, or its message when the catalog is empty.
\<close>

theorem search_empty_query_all:
  "search_results cls uc [] f bs = bs \<and>
   search_books cls uc [] f s =
     \<lparr>msgs = (if books s = [] then [Books_not_found]
              else map (\<lambda>b. Printed (to_dict b)) (books s)),
      raised = None, post = s\<rparr>"
proof -
  have "search_results cls uc [] f xs = xs" for xs
    by (simp add: search_results_def lower_Nil str_in_Nil)
  then show ?thesis by (simp add: search_books_def Let_def)
qed

end
